theory Spec2Isabelle
  imports
    Main
    "HOL-Library.Word"
    "HOL-Library.Sublist"
    "HOL-Library.Char_ord"
    "HOL-Library.List_Lexorder"
begin

section \<open>The myrpc server: data model\<close>

text \<open>
  A shallow embedding of package \<open>server\<close> (the file with \<open>Server\<close>, \<open>ServiceGroup\<close>,
  \<open>register\<close>, \<open>ServeConn\<close>, \<open>ServeRequest\<close>, \<open>readRequest\<close>, \<open>call\<close>, \<open>sendResponse\<close>,
  \<open>getContext\<close>, \<open>putContext\<close> and \<open>close\<close>) and of \<open>common.CheckSname\<close>.

  Go strings are byte strings: \<open>string\<close>. An \<open>error\<close> value is \<open>io.EOF\<close>, which the code
  tells apart by identity, or any other error, of which the code only uses the message.
\<close>

datatype err = EOF | Err string

fun err_Error :: "err \<Rightarrow> string" where
  "err_Error EOF = ''EOF''"
| "err_Error (Err m) = m"

text \<open>
  The errors of package \<open>common\<close> that registration builds: \<open>ErrInvalidPath.Format(s)\<close>,
  \<open>ErrServiceAlreadyExists.Format(s)\<close> and \<open>NewError(msg)\<close>. Their declarations are not among
  the sources, so their message texts are not modelled: each value keeps its argument.
\<close>

datatype common_error =
    ErrInvalidPath string
  | ErrServiceAlreadyExists string
  | NewError string

text \<open>
  \<open>log.Fatal\<close> ends the process. A function that may call it returns \<open>fatal + 'a\<close>;
  each constructor is one call site and keeps what the message is built from.
\<close>

datatype fatal =
    FatalCommon common_error
  | FatalErr err
  | FatalInvalidService
  | FatalMultiError "common_error list"

text \<open>
  The other \<open>log\<close> calls append to a log kept with the server state, one constructor for
  each call site. Arguments that come from code outside the sources (the stack trace,
  \<open>ctx.Path()\<close>, the listener's address) are left out.
\<close>

datatype log_entry =
    InfoRoute string
  | InfoListening
  | InfoStopped
  | DebugAccept string
  | DebugPostConnAccept string
  | DebugRpc string
  | DebugWritingResponse string
  | CriticalPanic

text \<open>
  \<open>common.ErrorType\<close> is declared outside the sources. Modelled from the spec: the tag has
  the kinds "server service" and "server service panic", which \<open>call\<close> assigns;
  \<open>ErrorTypeZero\<close> stands for the zero value that a Context built by the pool's \<open>New\<close> carries.
\<close>

datatype ErrorType = ErrorTypeZero | ErrorTypeServerService | ErrorTypeServerServicePanic

text \<open>
  \<open>reflect.Type\<close>, as far as \<open>readRequest\<close> inspects it: a pointer type \<open>Ptr t\<close>, whose
  \<open>Elem()\<close> is \<open>t\<close>, or a type of any other kind.
\<close>

datatype rtype = Ptr rtype | Named string

text \<open>\<open>rpc.Request\<close> and \<open>rpc.Response\<close> of \<open>net/rpc\<close>; \<open>Seq\<close> is a \<open>uint64\<close>.\<close>

record Request =
  req_ServiceMethod :: string
  req_Seq :: "64 word"

record Response =
  resp_ServiceMethod :: string
  resp_Seq :: "64 word"
  resp_Error :: string

text \<open>
  A plugin container is the list of its plugins (\<open>PluginContainer{Plugins: all}\<close>);
  \<open>new(ServerPluginContainer)\<close> is the empty list. A service, as far as the server reads
  and writes it: \<open>GetPath\<close>, \<open>GetArgType\<close> and \<open>SetPluginContainer\<close>.
\<close>

record 'pl Service =
  GetPath :: string
  GetArgType :: rtype
  svc_PluginContainer :: "'pl list option"

text \<open>
  The Context. \<open>reflect.Value\<close> fields are \<open>'v option\<close> with \<open>None\<close> the zero Value; the
  bag \<open>data.data\<close> and \<open>query\<close> (a \<open>url.Values\<close>) are \<open>None\<close> when the map is nil;
  \<open>codecConn\<close> refers to a connection.
  The back-pointer \<open>server\<close> and the embedded mutex, which no function here writes after
  the pool's \<open>New\<close>, are not fields of the record.
\<close>

type_synonym conn_ref = nat

record ('pl, 'v) Context =
  codecConn :: "conn_ref option"
  req :: Request
  resp :: Response
  service :: "'pl Service option"
  argv :: "'v option"
  replyv :: "'v option"
  query :: "(string \<times> string list) list option"
  data :: "('v \<times> 'v) list option"
  rpcErrorType :: ErrorType

record Listener =
  lis_Addr :: string
  lis_closed :: bool

text \<open>
  The Server. \<open>contextPool\<close> is the \<open>sync.Pool\<close> as the list of pooled Contexts,
  \<open>callGroup\<close> the counter of the \<open>sync.WaitGroup\<close> (\<open>Add(1)\<close> precedes \<open>Done()\<close> on every
  path, so it does not go below zero, where Go would panic), \<open>logged\<close> what the \<open>log\<close>
  calls wrote.
  The codec factory, the timeouts and the lock \<open>mu\<close> are not fields of the record.
\<close>

record ('pl, 'v) Server =
  PluginContainer :: "'pl list"
  serviceMap :: "string \<rightharpoonup> 'pl Service"
  routers :: "string list"
  listener :: "Listener option"
  contextPool :: "('pl, 'v) Context list"
  baseMetadata :: string
  callGroup :: int
  running :: bool
  logged :: "log_entry list"

record 'pl ServiceGroup =
  prefixes :: "string list"
  grp_PluginContainer :: "'pl list option"

definition logf :: "log_entry \<Rightarrow> ('pl, 'v) Server \<Rightarrow> ('pl, 'v) Server" where
  "logf e server = server\<lparr>logged := logged server @ [e]\<rparr>"

section \<open>Name validation (\<open>common.CheckSname\<close>)\<close>

text \<open>
  \<open>nameRegexp\<close> is \<^verbatim>\<open>^[a-zA-Z0-9_\.\-]*$\<close>: every byte of the name is an ASCII letter,
  a digit, an underscore, a dot or a hyphen.
\<close>

definition nameChar :: "char \<Rightarrow> bool" where
  "nameChar c \<longleftrightarrow>
     (let n = (of_char c :: nat) in
      (97 \<le> n \<and> n \<le> 122) \<or> (65 \<le> n \<and> n \<le> 90) \<or> (48 \<le> n \<and> n \<le> 57)
      \<or> c = CHR ''_'' \<or> c = CHR ''.'' \<or> c = CHR ''-'')"

definition nameRegexp_MatchString :: "string \<Rightarrow> bool" where
  "nameRegexp_MatchString sname = list_all nameChar sname"

definition CheckSname :: "string \<Rightarrow> common_error option" where
  "CheckSname sname =
     (if \<not> nameRegexp_MatchString sname then Some (ErrInvalidPath sname) else None)"

section \<open>Registration\<close>

text \<open>
  What registration calls outside the sources: the service builder's \<open>NewServices\<close>, the
  containers' \<open>doRegister\<close> and \<open>common.ObjectName\<close>. A register hook is plugin code with
  effects of its own, so \<open>doRegister\<close> passes a state \<open>'w\<close> of the plugins along.
\<close>

record ('pl, 'r, 'w) RegDeps =
  NewServices :: "'r \<Rightarrow> string list \<Rightarrow> err + 'pl Service list"
  doRegister :: "'pl list \<Rightarrow> string \<Rightarrow> 'r \<Rightarrow> string list \<Rightarrow> 'w \<Rightarrow> err option \<times> 'w"
  ObjectName :: "'r \<Rightarrow> string"

text \<open>
  The loop of \<open>register\<close> over the services. Its state is \<open>errs\<close>, the variadic \<open>metadata\<close>
  (reassigned by \<open>append\<close> in every pass), the server and the plugins' state.
\<close>

fun register_services ::
  "('pl, 'r, 'w) RegDeps \<Rightarrow> 'r \<Rightarrow> 'pl list \<Rightarrow> 'pl Service list \<Rightarrow>
   common_error list \<times> string list \<times> ('pl, 'v) Server \<times> 'w \<Rightarrow>
   common_error list \<times> string list \<times> ('pl, 'v) Server \<times> 'w" where
  "register_services d rcvr p [] st = st"
| "register_services d rcvr p (svc # rest) (errs, metadata, server, w) =
     (let spath = GetPath svc;
          errs1 = (if serviceMap server spath \<noteq> None
                   then errs @ [ErrServiceAlreadyExists spath] else errs);
          metadata1 = metadata @ [baseMetadata server];
          (e1, w1) = doRegister d (PluginContainer server) spath rcvr metadata1 w;
          errs2 = (case e1 of Some e \<Rightarrow> errs1 @ [NewError (err_Error e)] | None \<Rightarrow> errs1);
          (e2, w2) = doRegister d p spath rcvr metadata1 w1;
          errs3 = (case e2 of Some e \<Rightarrow> errs2 @ [NewError (err_Error e)] | None \<Rightarrow> errs2);
          svc1 = svc\<lparr>svc_PluginContainer := Some p\<rparr>;
          server1 = logf (InfoRoute spath) (server\<lparr>routers := routers server @ [spath]\<rparr>);
          server2 = server1\<lparr>serviceMap := (serviceMap server1)(spath \<mapsto> svc1)\<rparr>
      in register_services d rcvr p rest (errs3, metadata1, server2, w2))"

text \<open>\<open>sort.Strings\<close> orders by the bytes of the strings; \<open>sort\<close> on \<open>string\<close> does the same.\<close>

definition register ::
  "('pl, 'r, 'w) RegDeps \<Rightarrow> string list \<Rightarrow> 'r \<Rightarrow> 'pl list \<Rightarrow> string list \<Rightarrow>
   ('pl, 'v) Server \<times> 'w \<Rightarrow> fatal + ('pl, 'v) Server \<times> 'w" where
  "register d pathSegments rcvr p metadata sw =
     (case sw of (server, w) \<Rightarrow>
      (case NewServices d rcvr pathSegments of
         Inl e \<Rightarrow> Inl (FatalErr e)
       | Inr services \<Rightarrow>
           if length services = 0 then Inl FatalInvalidService
           else (case register_services d rcvr p services ([], metadata, server, w) of
                   (errs, metadata', server', w') \<Rightarrow>
                     if length errs > 0 then Inl (FatalMultiError errs)
                     else Inr (server'\<lparr>routers := sort (routers server')\<rparr>, w'))))"

definition NamedRegister ::
  "('pl, 'r, 'w) RegDeps \<Rightarrow> string \<Rightarrow> 'r \<Rightarrow> string list \<Rightarrow>
   ('pl, 'v) Server \<times> 'w \<Rightarrow> fatal + ('pl, 'v) Server \<times> 'w" where
  "NamedRegister d name rcvr metadata sw =
     (case CheckSname name of
        Some e \<Rightarrow> Inl (FatalCommon e)
      | None \<Rightarrow> register d [name] rcvr [] metadata sw)"

definition Register ::
  "('pl, 'r, 'w) RegDeps \<Rightarrow> 'r \<Rightarrow> string list \<Rightarrow>
   ('pl, 'v) Server \<times> 'w \<Rightarrow> fatal + ('pl, 'v) Server \<times> 'w" where
  "Register d rcvr metadata sw = NamedRegister d (ObjectName d rcvr) rcvr metadata sw"

definition group_NamedRegister ::
  "('pl, 'r, 'w) RegDeps \<Rightarrow> 'pl ServiceGroup \<Rightarrow> string \<Rightarrow> 'r \<Rightarrow> string list \<Rightarrow>
   ('pl, 'v) Server \<times> 'w \<Rightarrow> fatal + ('pl, 'v) Server \<times> 'w" where
  "group_NamedRegister d grp name rcvr metadata sw =
     (case CheckSname name of
        Some e \<Rightarrow> Inl (FatalCommon e)
      | None \<Rightarrow>
          (let all = (case grp_PluginContainer grp of None \<Rightarrow> [] | Some plugins \<Rightarrow> plugins)
           in register d (prefixes grp @ [name]) rcvr all metadata sw))"

definition group_Register ::
  "('pl, 'r, 'w) RegDeps \<Rightarrow> 'pl ServiceGroup \<Rightarrow> 'r \<Rightarrow> string list \<Rightarrow>
   ('pl, 'v) Server \<times> 'w \<Rightarrow> fatal + ('pl, 'v) Server \<times> 'w" where
  "group_Register d grp rcvr metadata sw =
     group_NamedRegister d grp (ObjectName d rcvr) rcvr metadata sw"

text \<open>
  The registry after \<open>init\<close> and after every registration that returns: \<open>routers\<close> lists
  each key of \<open>serviceMap\<close> once.
\<close>

definition registry_ok :: "('pl, 'v) Server \<Rightarrow> bool" where
  "registry_ok server \<longleftrightarrow>
     distinct (routers server) \<and> set (routers server) = dom (serviceMap server)"

text \<open>The character class of the spec's invariant on paths: a name character or a slash.\<close>

definition pathChar :: "char \<Rightarrow> bool" where
  "pathChar c \<longleftrightarrow> nameChar c \<or> c = CHR ''/''"

section \<open>The context pool\<close>

text \<open>
  The pool's \<open>New\<close> (set in \<open>init\<close>) allocates the two headers and the bag's store and leaves
  every other field at its zero value.
\<close>

definition contextPool_New :: "('pl, 'v) Context" where
  "contextPool_New =
     \<lparr>codecConn = None,
      req = \<lparr>req_ServiceMethod = [], req_Seq = 0\<rparr>,
      resp = \<lparr>resp_ServiceMethod = [], resp_Seq = 0, resp_Error = []\<rparr>,
      service = None, argv = None, replyv = None, query = None, data = None,
      rpcErrorType = ErrorTypeZero\<rparr>"

text \<open>
  \<open>init\<close> empties the routers and the service map. Its defaults for a nil plugin
  container (the empty container, here the same value), codec factory and service builder,
  and the process-wide \<open>addServers\<close>, are outside the record.
\<close>

definition init :: "('pl, 'v) Server \<Rightarrow> ('pl, 'v) Server" where
  "init server = server\<lparr>routers := [], serviceMap := Map.empty\<rparr>"

text \<open>
  \<open>sync.Pool\<close>: \<open>Get\<close> hands out a pooled Context, or a new one when there is none; \<open>Put\<close>
  adds one. The model hands out the Context put last.
\<close>

definition getContext ::
  "('pl, 'v) Server \<Rightarrow> conn_ref \<Rightarrow> ('pl, 'v) Context \<times> ('pl, 'v) Server" where
  "getContext server conn =
     (case (case contextPool server of
              [] \<Rightarrow> (contextPool_New, server)
            | c # pool \<Rightarrow> (c, server\<lparr>contextPool := pool\<rparr>)) of
        (ctx, server') \<Rightarrow> (ctx\<lparr>codecConn := Some conn, data := Some []\<rparr>, server'))"

definition putContext :: "('pl, 'v) Server \<Rightarrow> ('pl, 'v) Context \<Rightarrow> ('pl, 'v) Server" where
  "putContext server ctx =
     (let ctx1 = ctx\<lparr>data := None\<rparr>;
          ctx2 = ctx1\<lparr>codecConn := None\<rparr>;
          ctx3 = ctx2\<lparr>req := (req ctx2)\<lparr>req_ServiceMethod := []\<rparr>\<rparr>;
          ctx4 = ctx3\<lparr>req := (req ctx3)\<lparr>req_Seq := 0\<rparr>\<rparr>;
          ctx5 = ctx4\<lparr>resp := (resp ctx4)\<lparr>resp_Error := []\<rparr>\<rparr>;
          ctx6 = ctx5\<lparr>resp := (resp ctx5)\<lparr>resp_Seq := 0\<rparr>\<rparr>;
          ctx7 = ctx6\<lparr>resp := (resp ctx6)\<lparr>resp_ServiceMethod := []\<rparr>\<rparr>;
          ctx8 = ctx7\<lparr>service := None\<rparr>;
          ctx9 = ctx8\<lparr>query := Some []\<rparr>;
          ctx10 = ctx9\<lparr>argv := None\<rparr>;
          ctx11 = ctx10\<lparr>replyv := None\<rparr>
      in server\<lparr>contextPool := ctx11 # contextPool server\<rparr>)"

section \<open>Serving a connection\<close>

text \<open>
  What a response body is: the placeholder \<open>invalidRequest\<close> or a reply value. What the
  invoker \<open>ctx.service.Call\<close> does: it returns a reply and an error, or it panics.
\<close>

datatype 'v body = invalidRequest | Reply 'v

datatype 'v CallResult = Return "'v option" "err option" | Panic

text \<open>A panic that nothing recovers ends the process.\<close>

datatype 'a outcome = ProcessPanic | Returned 'a

datatype status = Normal | Panicked

text \<open>
  What serving calls outside the sources, as parameters: the Context's methods
  \<open>readRequestHeader\<close>, \<open>readRequestBody\<close> and \<open>writeResponse\<close> (which run the plugins and the
  codec), the codec connection's \<open>ReadRequestBody\<close>, \<open>Close\<close>, \<open>GetServerCodec\<close> (is it nil?)
  and \<open>SetServerCodec\<close> (with the server's codec factory), the invoker \<open>Call\<close>, \<open>reflect.New\<close>
  and \<open>Value.Elem\<close>, and the container's \<open>doPostConnAccept\<close>. \<open>'c\<close> is the state of the
  connection, which each of them may read or write; a Context method also returns the
  Context it was called on. They read the server's registry, which serving does not
  write. Of these only the invoker is given a way to panic.
\<close>

record ('c, 'pl, 'v) ConnDeps =
  readRequestHeader ::
    "('pl, 'v) Context \<Rightarrow> 'c \<Rightarrow> (bool \<times> bool \<times> err option) \<times> ('pl, 'v) Context \<times> 'c"
  readRequestBody ::
    "('pl, 'v) Context \<Rightarrow> 'v \<Rightarrow> 'c \<Rightarrow> err option \<times> ('pl, 'v) Context \<times> 'c"
  writeResponse ::
    "('pl, 'v) Context \<Rightarrow> 'v body \<Rightarrow> 'c \<Rightarrow> err option \<times> ('pl, 'v) Context \<times> 'c"
  ReadRequestBody :: "'v option \<Rightarrow> 'c \<Rightarrow> err option \<times> 'c"
  Close :: "'c \<Rightarrow> 'c"
  GetServerCodec_nil :: "'c \<Rightarrow> bool"
  SetServerCodec :: "'c \<Rightarrow> 'c"
  Call :: "'pl Service \<Rightarrow> 'v option \<Rightarrow> ('pl, 'v) Context \<Rightarrow> 'v CallResult \<times> ('pl, 'v) Context"
  reflect_New :: "rtype \<Rightarrow> 'v"
  reflect_Elem :: "'v \<Rightarrow> 'v"
  doPostConnAccept :: "'pl list \<Rightarrow> 'c \<Rightarrow> err option \<times> 'c"

text \<open>
  \<open>readRequest\<close>. \<open>ctx.service.GetArgType()\<close> on a nil service is a nil dereference, which
  in the reader nothing recovers.
\<close>

definition readRequest ::
  "('c, 'pl, 'v) ConnDeps \<Rightarrow> ('pl, 'v) Context \<Rightarrow> 'c \<Rightarrow>
   ((bool \<times> bool \<times> err option) \<times> ('pl, 'v) Context \<times> 'c) outcome" where
  "readRequest d ctx conn =
     (case readRequestHeader d ctx conn of
        ((keepReading, notSend, e), ctx1, conn1) \<Rightarrow>
          if e \<noteq> None then
            (if \<not> keepReading then Returned ((keepReading, notSend, e), ctx1, conn1)
             else (case ReadRequestBody d None conn1 of
                     (_, conn2) \<Rightarrow> Returned ((keepReading, notSend, e), ctx1, conn2)))
          else
            (case service ctx1 of
               None \<Rightarrow> ProcessPanic
             | Some svc \<Rightarrow>
                 (let argType = GetArgType svc;
                      (argv0, argIsValue) =
                        (case argType of
                           Ptr t \<Rightarrow> (reflect_New d t, False)
                         | Named n \<Rightarrow> (reflect_New d argType, True));
                      ctx2 = (if argIsValue then ctx1\<lparr>argv := Some (reflect_Elem d argv0)\<rparr>
                              else ctx1\<lparr>argv := Some argv0\<rparr>)
                  in (case readRequestBody d ctx2 argv0 conn1 of
                        (e2, ctx3, conn2) \<Rightarrow> Returned ((keepReading, notSend, e2), ctx3, conn2)))))"

text \<open>
  \<open>sendResponse\<close>, in two parts. \<open>sendResponse_header\<close> is the part before \<open>sending.Lock()\<close>:
  it fills the response header and chooses the body; \<open>replyv.Interface()\<close> panics on the
  zero Value, after \<open>resp.ServiceMethod\<close> was assigned. \<open>sendResponse_write\<close> is the part
  under the lock, which serialises the writers of one connection and has no state in this
  model: it hands the Context, with its response header, and the body to \<open>writeResponse\<close>.
\<close>

definition sendResponse_header ::
  "('pl, 'v) Context \<Rightarrow> string \<Rightarrow> ('pl, 'v) Context \<times> 'v body option" where
  "sendResponse_header ctx errmsg =
     (let ctx1 = ctx\<lparr>resp := (resp ctx)\<lparr>resp_ServiceMethod := req_ServiceMethod (req ctx)\<rparr>\<rparr>
      in if errmsg \<noteq> [] then
           (let ctx2 = ctx1\<lparr>resp := (resp ctx1)\<lparr>resp_Error := errmsg\<rparr>\<rparr>
            in (ctx2\<lparr>resp := (resp ctx2)\<lparr>resp_Seq := req_Seq (req ctx2)\<rparr>\<rparr>, Some invalidRequest))
         else
           (case replyv ctx1 of
              None \<Rightarrow> (ctx1, None)
            | Some v \<Rightarrow> (ctx1\<lparr>resp := (resp ctx1)\<lparr>resp_Seq := req_Seq (req ctx1)\<rparr>\<rparr>, Some (Reply v))))"

definition sendResponse_write ::
  "('c, 'pl, 'v) ConnDeps \<Rightarrow> ('pl, 'v) Server \<Rightarrow> ('pl, 'v) Context \<Rightarrow> 'v body \<Rightarrow> 'c \<Rightarrow>
   status \<times> ('pl, 'v) Server \<times> ('pl, 'v) Context \<times> 'c" where
  "sendResponse_write d server ctx reply conn =
     (case writeResponse d ctx reply conn of
        (e, ctx1, conn1) \<Rightarrow>
          (Normal,
           (case e of Some e' \<Rightarrow> logf (DebugWritingResponse (err_Error e')) server
            | None \<Rightarrow> server),
           ctx1, conn1))"

definition sendResponse ::
  "('c, 'pl, 'v) ConnDeps \<Rightarrow> ('pl, 'v) Server \<Rightarrow> ('pl, 'v) Context \<Rightarrow> string \<Rightarrow> 'c \<Rightarrow>
   status \<times> ('pl, 'v) Server \<times> ('pl, 'v) Context \<times> 'c" where
  "sendResponse d server ctx errmsg conn =
     (case sendResponse_header ctx errmsg of
        (ctx1, None) \<Rightarrow> (Panicked, server, ctx1, conn)
      | (ctx1, Some reply) \<Rightarrow> sendResponse_write d server ctx1 reply conn)"

text \<open>
  \<open>call\<close>. The deferred function recovers a panic of the invoker (a nil \<open>ctx.service\<close>
  included) and of \<open>sendResponse\<close>; \<open>call_recover\<close> is its body. With a message that is not
  empty \<open>sendResponse\<close> does not reach \<open>replyv.Interface()\<close>.
\<close>

definition call_recover ::
  "('c, 'pl, 'v) ConnDeps \<Rightarrow> ('pl, 'v) Server \<Rightarrow> ('pl, 'v) Context \<Rightarrow> 'c \<Rightarrow>
   ('pl, 'v) Server \<times> ('pl, 'v) Context \<times> 'c" where
  "call_recover d server ctx conn =
     (let server1 = logf CriticalPanic server;
          ctx1 = ctx\<lparr>rpcErrorType := ErrorTypeServerServicePanic\<rparr>
      in snd (sendResponse d server1 ctx1 ''Service Panic!'' conn))"

definition call ::
  "('c, 'pl, 'v) ConnDeps \<Rightarrow> ('pl, 'v) Server \<Rightarrow> ('pl, 'v) Context \<Rightarrow> 'c \<Rightarrow>
   ('pl, 'v) Server \<times> ('pl, 'v) Context \<times> 'c" where
  "call d server ctx conn =
     (case (case service ctx of
              None \<Rightarrow> (Panic, ctx)
            | Some svc \<Rightarrow> Call d svc (argv ctx) ctx) of
        (Panic, ctx1) \<Rightarrow> call_recover d server ctx1 conn
      | (Return rv e, ctx1) \<Rightarrow>
          (let ctx2 = ctx1\<lparr>replyv := rv\<rparr>;
               (errmsg, ctx3) =
                 (case e of
                    None \<Rightarrow> ([], ctx2)
                  | Some e' \<Rightarrow> (err_Error e', ctx2\<lparr>rpcErrorType := ErrorTypeServerService\<rparr>))
           in (case sendResponse d server ctx3 errmsg conn of
                 (Panicked, server1, ctx4, conn1) \<Rightarrow> call_recover d server1 ctx4 conn1
               | (Normal, server1, ctx4, conn1) \<Rightarrow> (server1, ctx4, conn1))))"

definition callGroup_Add :: "int \<Rightarrow> ('pl, 'v) Server \<Rightarrow> ('pl, 'v) Server" where
  "callGroup_Add n server = server\<lparr>callGroup := callGroup server + n\<rparr>"

definition callGroup_Done :: "('pl, 'v) Server \<Rightarrow> ('pl, 'v) Server" where
  "callGroup_Done server = server\<lparr>callGroup := callGroup server - 1\<rparr>"

text \<open>The body of the goroutine that \<open>ServeConn\<close> starts for a request it has read.\<close>

definition callTask ::
  "('c, 'pl, 'v) ConnDeps \<Rightarrow> ('pl, 'v) Server \<Rightarrow> ('pl, 'v) Context \<Rightarrow> 'c \<Rightarrow>
   ('pl, 'v) Server \<times> 'c" where
  "callTask d server ctx conn =
     (case call d server ctx conn of
        (server1, ctx1, conn1) \<Rightarrow> (callGroup_Done (putContext server1 ctx1), conn1))"

text \<open>
  One pass of the loop of \<open>ServeConn\<close>, after \<open>server.isRunning()\<close> held: the server, the
  connection, the Context handed to a new goroutine (if any) and whether the loop goes on.
  \<open>sendResponse\<close> runs in the reader here, so its panic is not recovered.
\<close>

datatype loop_next = Continue | Break

definition ServeConn_pass ::
  "('c, 'pl, 'v) ConnDeps \<Rightarrow> ('pl, 'v) Server \<Rightarrow> conn_ref \<Rightarrow> 'c \<Rightarrow>
   (('pl, 'v) Server \<times> 'c \<times> ('pl, 'v) Context option \<times> loop_next) outcome" where
  "ServeConn_pass d server cref conn =
     (case getContext server cref of
        (ctx, server1) \<Rightarrow>
          (case readRequest d ctx conn of
             ProcessPanic \<Rightarrow> ProcessPanic
           | Returned ((keepReading, notSend, e), ctx1, conn1) \<Rightarrow>
               (let server2 = callGroup_Add 1 server1
                in (case e of
                      None \<Rightarrow> Returned (server2, conn1, Some ctx1, Continue)
                    | Some e' \<Rightarrow>
                        (let server3 = (if e' \<noteq> EOF then logf (DebugRpc (err_Error e')) server2
                                        else server2)
                         in if keepReading then
                              (if \<not> notSend then
                                 (case sendResponse d server3 ctx1 (err_Error e') conn1 of
                                    (Panicked, _) \<Rightarrow> ProcessPanic
                                  | (Normal, server4, ctx2, conn2) \<Rightarrow>
                                      Returned (callGroup_Done (putContext server4 ctx2),
                                                conn2, None, Continue))
                               else Returned (callGroup_Done (putContext server3 ctx1),
                                              conn1, None, Continue))
                            else Returned (callGroup_Done (putContext server3 ctx1),
                                           conn1, None, Break))))))"

text \<open>
  The loop of \<open>ServeConn\<close>. It ends when the server stops or a read fails without
  \<open>keepReading\<close>, and may never end: the fuel bounds the passes, and \<open>None\<close> is a loop
  that has not returned yet. The goroutine of a request runs beside the reader; the model
  runs it to its end before the next pass, which is one of the schedules Go admits.
\<close>

fun ServeConn_loop ::
  "nat \<Rightarrow> ('c, 'pl, 'v) ConnDeps \<Rightarrow> ('pl, 'v) Server \<Rightarrow> conn_ref \<Rightarrow> 'c \<Rightarrow>
   (('pl, 'v) Server \<times> 'c) outcome option" where
  "ServeConn_loop 0 d server cref conn = None"
| "ServeConn_loop (Suc n) d server cref conn =
     (if \<not> running server then Some (Returned (server, conn))
      else (case ServeConn_pass d server cref conn of
              ProcessPanic \<Rightarrow> Some ProcessPanic
            | Returned (server1, conn1, spawned, next) \<Rightarrow>
                (case (case spawned of
                         None \<Rightarrow> (server1, conn1)
                       | Some c \<Rightarrow> callTask d server1 c conn1) of
                   (server2, conn2) \<Rightarrow>
                     (case next of
                        Continue \<Rightarrow> ServeConn_loop n d server2 cref conn2
                      | Break \<Rightarrow> Some (Returned (server2, conn2))))))"

definition ServeConn ::
  "nat \<Rightarrow> ('c, 'pl, 'v) ConnDeps \<Rightarrow> ('pl, 'v) Server \<Rightarrow> conn_ref \<Rightarrow> 'c \<Rightarrow>
   (('pl, 'v) Server \<times> 'c) outcome option" where
  "ServeConn n d server cref conn =
     (let conn0 = (if GetServerCodec_nil d conn then SetServerCodec d conn else conn)
      in (case ServeConn_loop n d server cref conn0 of
            None \<Rightarrow> None
          | Some ProcessPanic \<Rightarrow> Some ProcessPanic
          | Some (Returned (server1, conn1)) \<Rightarrow> Some (Returned (server1, Close d conn1))))"

text \<open>\<open>ServeRequest\<close>: the error it returns, the server and the connection.\<close>

definition ServeRequest ::
  "('c, 'pl, 'v) ConnDeps \<Rightarrow> ('pl, 'v) Server \<Rightarrow> conn_ref \<Rightarrow> 'c \<Rightarrow>
   (err option \<times> ('pl, 'v) Server \<times> 'c) outcome" where
  "ServeRequest d server cref conn =
     (if \<not> running server then Returned (Some (Err ''rpc: server has stopped''), server, conn)
      else
        (let conn0 = (if GetServerCodec_nil d conn then SetServerCodec d conn else conn)
         in (case getContext server cref of
               (ctx, server1) \<Rightarrow>
                 (case readRequest d ctx conn0 of
                    ProcessPanic \<Rightarrow> ProcessPanic
                  | Returned ((keepReading, notSend, e), ctx1, conn1) \<Rightarrow>
                      (let server2 = callGroup_Add 1 server1
                       in (case e of
                             None \<Rightarrow>
                               (case call d server2 ctx1 conn1 of
                                  (server3, ctx2, conn2) \<Rightarrow>
                                    Returned (None, callGroup_Done (putContext server3 ctx2), conn2))
                           | Some e' \<Rightarrow>
                               (if keepReading \<and> \<not> notSend then
                                  (case sendResponse d server2 ctx1 (err_Error e') conn1 of
                                     (Panicked, _) \<Rightarrow> ProcessPanic
                                   | (Normal, server3, ctx2, conn2) \<Rightarrow>
                                       Returned (Some e', callGroup_Done (putContext server3 ctx2),
                                                 conn2))
                                else Returned (Some e', callGroup_Done (putContext server2 ctx1),
                                               conn1))))))))"

section \<open>Listening and shutting down\<close>

text \<open>\<open>strings.Contains\<close>.\<close>

fun Contains :: "string \<Rightarrow> string \<Rightarrow> bool" where
  "Contains [] substr = (substr = [])"
| "Contains (c # cs) substr = (prefix substr (c # cs) \<or> Contains cs substr)"

text \<open>
  What \<open>lis.Accept()\<close> returns, pass after pass: an error, or a connection (as wrapped by
  \<open>NewServerCodecConn\<close>). The loop of \<open>serveListener\<close> gives the server, the connections
  handed to \<open>go server.ServeConn\<close>, and whether it has returned; with nothing left to accept
  it blocks in \<open>Accept\<close>.
\<close>

datatype 'c accepted = AcceptError err | AcceptConn 'c

fun serveListener_loop ::
  "('c, 'pl, 'v) ConnDeps \<Rightarrow> ('pl, 'v) Server \<Rightarrow> 'c accepted list \<Rightarrow>
   ('pl, 'v) Server \<times> 'c list \<times> bool" where
  "serveListener_loop d server [] = (server, [], False)"
| "serveListener_loop d server (AcceptError e # rest) =
     ((if \<not> Contains (err_Error e) ''use of closed network connection''
       then logf (DebugAccept (err_Error e)) server else server), [], True)"
| "serveListener_loop d server (AcceptConn c # rest) =
     (case doPostConnAccept d (PluginContainer server) c of
        (Some e, conn) \<Rightarrow>
          serveListener_loop d (logf (DebugPostConnAccept (err_Error e)) server) rest
      | (None, conn) \<Rightarrow>
          (case serveListener_loop d server rest of
             (server1, conns, returned) \<Rightarrow> (server1, conn # conns, returned)))"

definition serveListener ::
  "('c, 'pl, 'v) ConnDeps \<Rightarrow> Listener \<Rightarrow> ('pl, 'v) Server \<Rightarrow> 'c accepted list \<Rightarrow>
   ('pl, 'v) Server \<times> 'c list \<times> bool" where
  "serveListener d lis server script =
     serveListener_loop d (logf InfoListening (server\<lparr>listener := Some lis, running := True\<rparr>))
       script"




section \<open>A codec, three services and a recording plugin to run the model on\<close>

text \<open>
  A connection that holds the headers still to be read, the sinks of the body reads so
  far (\<open>None\<close> for the nil sink), the responses written, and whether it is closed and has
  a codec. Headers are a service method and a sequence number.
\<close>

record tconn =
  tc_headers :: "(string \<times> 64 word) list"
  tc_bodyReads :: "nat option list"
  tc_written :: "(Response \<times> nat body) list"
  tc_closed :: bool
  tc_codec :: bool

definition test_service :: "string \<Rightarrow> string Service" where
  "test_service m =
     \<lparr>GetPath = m, GetArgType = Ptr (Named ''Args''), svc_PluginContainer = Some []\<rparr>"

text \<open>
  Reading a header: end of file when none is left; \<open>/veto\<close> is rejected by a plugin that
  asks for no response; the three services are found; any other method is unknown.
\<close>

definition test_readRequestHeader ::
  "(string, nat) Context \<Rightarrow> tconn \<Rightarrow>
   (bool \<times> bool \<times> err option) \<times> (string, nat) Context \<times> tconn" where
  "test_readRequestHeader ctx conn =
     (case tc_headers conn of
        [] \<Rightarrow> ((False, False, Some EOF), ctx, conn)
      | (m, q) # hs \<Rightarrow>
          (let ctx1 = ctx\<lparr>req := \<lparr>req_ServiceMethod = m, req_Seq = q\<rparr>\<rparr>;
               conn1 = conn\<lparr>tc_headers := hs\<rparr>
           in if m = ''/veto'' then ((True, True, Some (Err ''vetoed'')), ctx1, conn1)
              else if m = ''/arith/mul'' \<or> m = ''/arith/boom'' \<or> m = ''/arith/fail''
              then ((True, False, None), ctx1\<lparr>service := Some (test_service m)\<rparr>, conn1)
              else ((True, False, Some (Err (''rpc: unknown service '' @ m))), ctx1, conn1)))"

text \<open>\<open>/arith/boom\<close> panics, \<open>/arith/fail\<close> returns an error, \<open>/arith/mul\<close> replies 56.\<close>

definition test_Call ::
  "string Service \<Rightarrow> nat option \<Rightarrow> (string, nat) Context \<Rightarrow>
   nat CallResult \<times> (string, nat) Context" where
  "test_Call svc a ctx =
     (if GetPath svc = ''/arith/boom'' then (Panic, ctx)
      else if GetPath svc = ''/arith/fail'' then (Return (Some 0) (Some (Err ''failed'')), ctx)
      else (Return (Some 56) None, ctx))"

definition test_deps :: "(tconn, string, nat) ConnDeps" where
  "test_deps =
     \<lparr>readRequestHeader = test_readRequestHeader,
      readRequestBody =
        (\<lambda>ctx v conn. (None, ctx, conn\<lparr>tc_bodyReads := tc_bodyReads conn @ [Some v]\<rparr>)),
      writeResponse =
        (\<lambda>ctx b conn. (None, ctx, conn\<lparr>tc_written := tc_written conn @ [(resp ctx, b)]\<rparr>)),
      ReadRequestBody =
        (\<lambda>sink conn. (None, conn\<lparr>tc_bodyReads := tc_bodyReads conn @ [sink]\<rparr>)),
      Close = (\<lambda>conn. conn\<lparr>tc_closed := True\<rparr>),
      GetServerCodec_nil = (\<lambda>conn. \<not> tc_codec conn),
      SetServerCodec = (\<lambda>conn. conn\<lparr>tc_codec := True\<rparr>),
      Call = test_Call,
      reflect_New = (\<lambda>t. 0),
      reflect_Elem = (\<lambda>v. v),
      doPostConnAccept = (\<lambda>p conn. (None, conn))\<rparr>"

text \<open>A server after \<open>init\<close>, with a global plugin \<open>g\<close> and base metadata \<open>b\<close>.\<close>

definition test_server :: "bool \<Rightarrow> (string, nat) Server" where
  "test_server r =
     init \<lparr>PluginContainer = [''g''], serviceMap = Map.empty, routers = [], listener = None,
           contextPool = [], baseMetadata = ''b'', callGroup = 0, running = r, logged = []\<rparr>"

definition test_conn :: "(string \<times> 64 word) list \<Rightarrow> tconn" where
  "test_conn hs =
     \<lparr>tc_headers = hs, tc_bodyReads = [], tc_written = [], tc_closed = False,
      tc_codec = False\<rparr>"

text \<open>
  A service builder that makes one service for each of the given paths, and register hooks
  that accept and record the container, the path and the metadata of each invocation.
\<close>

type_synonym hook_calls = "(string list \<times> string \<times> string list) list"

definition test_RegDeps :: "string list \<Rightarrow> (string, unit, hook_calls) RegDeps" where
  "test_RegDeps paths =
     \<lparr>NewServices = (\<lambda>rcvr segs. Inr (map test_service paths)),
      doRegister = (\<lambda>p spath rcvr metadata w. (None, w @ [(p, spath, metadata)])),
      ObjectName = (\<lambda>rcvr. ''Arith'')\<rparr>"

text \<open>
  Registering \<open>Arith\<close>, whose builder makes \<open>/arith/mul\<close> and \<open>/arith/add\<close>, with the
  metadata \<open>m\<close> on the server above.
\<close>

definition test_registration :: "fatal + (string, nat) Server \<times> hook_calls" where
  "test_registration =
     NamedRegister (test_RegDeps [''/arith/mul'', ''/arith/add'']) ''Arith'' () [''m'']
       (test_server False, [])"

text \<open>
  The same registration through \<open>register\<close> and \<open>Register\<close>, and through a group with the
  prefix \<open>v1\<close> and the plugin \<open>auth\<close>; and a builder whose path holds a percent-escaped
  byte.
\<close>

definition test_register :: "fatal + (string, nat) Server \<times> hook_calls" where
  "test_register =
     register (test_RegDeps [''/arith/mul'', ''/arith/add'']) [''Arith''] () [] [''m'']
       (test_server False, [])"

definition test_Register :: "fatal + (string, nat) Server \<times> hook_calls" where
  "test_Register =
     Register (test_RegDeps [''/arith/mul'', ''/arith/add'']) () [''m''] (test_server False, [])"

definition test_group :: "string ServiceGroup" where
  "test_group = \<lparr>prefixes = [''v1''], grp_PluginContainer = Some [''auth'']\<rparr>"

definition test_group_NamedRegister :: "fatal + (string, nat) Server \<times> hook_calls" where
  "test_group_NamedRegister =
     group_NamedRegister (test_RegDeps [''/v1/arith/mul'', ''/v1/arith/add'']) test_group
       ''Arith'' () [''m''] (test_server False, [])"

definition test_group_Register :: "fatal + (string, nat) Server \<times> hook_calls" where
  "test_group_Register =
     group_Register (test_RegDeps [''/v1/arith/mul'', ''/v1/arith/add'']) test_group
       () [''m''] (test_server False, [])"

definition test_escaped_registration :: "fatal + (string, nat) Server \<times> hook_calls" where
  "test_escaped_registration =
     NamedRegister (test_RegDeps [''/arith/caf%C3%A9'']) ''Arith'' () [] (test_server False, [])"

text \<open>A Context as \<open>getContext\<close> hands it out of an empty pool, for connection 0.\<close>

definition test_ctx :: "(string, nat) Context" where
  "test_ctx = contextPool_New\<lparr>codecConn := Some 0, data := Some []\<rparr>"

text \<open>The Context of a request for \<open>/arith/boom\<close>, as \<open>readRequest\<close> leaves it.\<close>

definition test_ctx_boom :: "(string, nat) Context" where
  "test_ctx_boom =
     test_ctx\<lparr>req := \<lparr>req_ServiceMethod = ''/arith/boom'', req_Seq = 7\<rparr>,
              service := Some (test_service ''/arith/boom''), argv := Some 0\<rparr>"



section \<open>Properties: serving\<close>

lemmas test_defs = test_deps_def test_server_def test_conn_def test_readRequestHeader_def
  test_service_def test_Call_def test_ctx_def test_ctx_boom_def init_def

lemmas serve_defs = ServeRequest_def getContext_def contextPool_New_def readRequest_def call_def
  call_recover_def sendResponse_def sendResponse_header_def sendResponse_write_def logf_def
  putContext_def callGroup_Add_def callGroup_Done_def callTask_def ServeConn_pass_def

lemma Response_updates:
  "r\<lparr>resp_ServiceMethod := a, resp_Error := c, resp_Seq := b\<rparr> =
     \<lparr>resp_ServiceMethod = a, resp_Seq = b, resp_Error = c\<rparr>"
  by (cases r) simp

lemma Response_updates2:
  "r\<lparr>resp_ServiceMethod := a, resp_Seq := b\<rparr> =
     \<lparr>resp_ServiceMethod = a, resp_Seq = b, resp_Error = resp_Error r\<rparr>"
  by (cases r) simp

lemma sendResponse_write_result:
  "fst (sendResponse_write d server ctx reply conn) = Normal
   \<and> snd (snd (sendResponse_write d server ctx reply conn)) = snd (writeResponse d ctx reply conn)"
  by (simp add: sendResponse_write_def split: prod.splits)

text \<open>
  Claim C10: \<open>ServeRequest\<close> on a server that is not running returns the error
  "rpc: server has stopped" at once: it reads nothing from the connection and leaves the
  server as it was.
\<close>

theorem ServeRequest_stopped:
  assumes "\<not> running server"
  shows "ServeRequest d server cref conn =
           Returned (Some (Err ''rpc: server has stopped''), server, conn)"
  using assms by (simp add: ServeRequest_def)

theorem ServeRequest_stopped_witness:
  "\<not> running (test_server False)
   \<and> ServeRequest test_deps (test_server False) 0 (test_conn [(''/arith/mul'', 1)]) =
       Returned (Some (Err ''rpc: server has stopped''), test_server False,
                 test_conn [(''/arith/mul'', 1)])"
proof -
  have h: "\<not> running (test_server False)"
    by (simp add: test_server_def init_def)
  show ?thesis
    using h ServeRequest_stopped [OF h] by simp
qed

text \<open>
  Claim C4: when \<open>readRequestHeader\<close> reports \<open>keepReading\<close> together with an error (the
  header was read, but its processing or the dispatch failed), \<open>readRequest\<close> still reads
  the body off the codec connection, once and into the nil sink, and returns the same
  triple.
\<close>

theorem readRequest_discards_body:
  assumes "readRequestHeader d ctx conn = ((True, notSend, Some e), ctx1, conn1)"
  shows "readRequest d ctx conn =
           Returned ((True, notSend, Some e), ctx1, snd (ReadRequestBody d None conn1))"
  using assms by (simp add: readRequest_def split: prod.splits)

theorem readRequest_discards_body_witness:
  "readRequestHeader test_deps test_ctx (test_conn [(''/nope'', 9)]) =
     ((True, False, Some (Err ''rpc: unknown service /nope'')),
      test_ctx\<lparr>req := \<lparr>req_ServiceMethod = ''/nope'', req_Seq = 9\<rparr>\<rparr>, test_conn [])
   \<and> readRequest test_deps test_ctx (test_conn [(''/nope'', 9)]) =
     Returned ((True, False, Some (Err ''rpc: unknown service /nope'')),
               test_ctx\<lparr>req := \<lparr>req_ServiceMethod = ''/nope'', req_Seq = 9\<rparr>\<rparr>,
               (test_conn [])\<lparr>tc_bodyReads := [None]\<rparr>)"
proof -
  have h: "readRequestHeader test_deps test_ctx (test_conn [(''/nope'', 9)]) =
     ((True, False, Some (Err ''rpc: unknown service /nope'')),
      test_ctx\<lparr>req := \<lparr>req_ServiceMethod = ''/nope'', req_Seq = 9\<rparr>\<rparr>, test_conn [])"
    by (simp add: test_defs)
  show ?thesis
    using h readRequest_discards_body [OF h] by (simp add: test_deps_def test_conn_def)
qed

text \<open>
  Claim C2: whenever \<open>sendResponse\<close> writes a response (it does not panic before the
  write), the Context it hands to \<open>writeResponse\<close> carries, in its response header, the
  \<open>Seq\<close> and the \<open>ServiceMethod\<close> of its request header, and the request header is the one
  \<open>sendResponse\<close> was called with.
\<close>

theorem sendResponse_mirrors_request:
  assumes "fst (sendResponse d server ctx errmsg conn) = Normal"
  shows "\<exists>ctx1 reply.
           sendResponse_header ctx errmsg = (ctx1, Some reply)
           \<and> snd (snd (sendResponse d server ctx errmsg conn)) =
               snd (writeResponse d ctx1 reply conn)
           \<and> resp_Seq (resp ctx1) = req_Seq (req ctx)
           \<and> resp_ServiceMethod (resp ctx1) = req_ServiceMethod (req ctx)
           \<and> req ctx1 = req ctx"
  using assms
  by (auto simp: sendResponse_def sendResponse_header_def sendResponse_write_result Let_def
           split: option.splits if_splits)

theorem sendResponse_mirrors_request_witness:
  "fst (sendResponse test_deps (test_server True)
          (test_ctx\<lparr>req := \<lparr>req_ServiceMethod = ''/arith/mul'', req_Seq = 10\<rparr>,
                    replyv := Some 56\<rparr>) [] (test_conn [])) = Normal
   \<and> (\<exists>ctx1 reply.
         sendResponse_header
           (test_ctx\<lparr>req := \<lparr>req_ServiceMethod = ''/arith/mul'', req_Seq = 10\<rparr>,
                     replyv := Some 56\<rparr>) [] = (ctx1, Some reply)
         \<and> snd (snd (sendResponse test_deps (test_server True)
                  (test_ctx\<lparr>req := \<lparr>req_ServiceMethod = ''/arith/mul'', req_Seq = 10\<rparr>,
                            replyv := Some 56\<rparr>) [] (test_conn []))) =
             snd (writeResponse test_deps ctx1 reply (test_conn []))
         \<and> resp_Seq (resp ctx1) = 10
         \<and> resp_ServiceMethod (resp ctx1) = ''/arith/mul'')"
proof -
  have h: "fst (sendResponse test_deps (test_server True)
          (test_ctx\<lparr>req := \<lparr>req_ServiceMethod = ''/arith/mul'', req_Seq = 10\<rparr>,
                    replyv := Some 56\<rparr>) [] (test_conn [])) = Normal"
    by (simp add: test_defs serve_defs)
  show ?thesis
    using h sendResponse_mirrors_request [OF h] by auto
qed

text \<open>
  Claim C6: with an error message that is not empty, \<open>sendResponse\<close> writes the placeholder
  \<open>invalidRequest\<close> as the body and the message is the header's \<open>Error\<close>; with the empty
  message it writes the reply of the invoker (\<open>replyv\<close>) and leaves the header's \<open>Error\<close>
  as it was, so an empty one stays empty.
\<close>

theorem sendResponse_body_and_error:
  "(errmsg \<noteq> [] \<longrightarrow>
      fst (sendResponse d server ctx errmsg conn) = Normal
      \<and> snd (snd (sendResponse d server ctx errmsg conn)) =
          snd (writeResponse d
                 (ctx\<lparr>resp := \<lparr>resp_ServiceMethod = req_ServiceMethod (req ctx),
                                resp_Seq = req_Seq (req ctx), resp_Error = errmsg\<rparr>\<rparr>)
                 invalidRequest conn))
   \<and> (errmsg = [] \<longrightarrow> replyv ctx = Some v \<longrightarrow>
      fst (sendResponse d server ctx errmsg conn) = Normal
      \<and> snd (snd (sendResponse d server ctx errmsg conn)) =
          snd (writeResponse d
                 (ctx\<lparr>resp := \<lparr>resp_ServiceMethod = req_ServiceMethod (req ctx),
                                resp_Seq = req_Seq (req ctx),
                                resp_Error = resp_Error (resp ctx)\<rparr>\<rparr>)
                 (Reply v) conn))"
  by (simp add: sendResponse_def sendResponse_header_def sendResponse_write_result
                Response_updates Response_updates2)

theorem sendResponse_body_and_error_witness:
  "''failed'' \<noteq> []
   \<and> snd (snd (snd (sendResponse test_deps (test_server True)
        (test_ctx\<lparr>req := \<lparr>req_ServiceMethod = ''/arith/fail'', req_Seq = 11\<rparr>,
                  replyv := Some 0\<rparr>) ''failed'' (test_conn [])))) =
      (test_conn [])
        \<lparr>tc_written := [(\<lparr>resp_ServiceMethod = ''/arith/fail'', resp_Seq = 11,
                           resp_Error = ''failed''\<rparr>, invalidRequest)]\<rparr>
   \<and> replyv (test_ctx\<lparr>req := \<lparr>req_ServiceMethod = ''/arith/mul'', req_Seq = 10\<rparr>,
                       replyv := Some 56\<rparr>) = Some 56
   \<and> snd (snd (snd (sendResponse test_deps (test_server True)
        (test_ctx\<lparr>req := \<lparr>req_ServiceMethod = ''/arith/mul'', req_Seq = 10\<rparr>,
                  replyv := Some 56\<rparr>) [] (test_conn [])))) =
      (test_conn [])
        \<lparr>tc_written := [(\<lparr>resp_ServiceMethod = ''/arith/mul'', resp_Seq = 10,
                           resp_Error = []\<rparr>, Reply 56)]\<rparr>"
  using sendResponse_body_and_error
          [of "''failed''" test_deps "test_server True"
              "test_ctx\<lparr>req := \<lparr>req_ServiceMethod = ''/arith/fail'', req_Seq = 11\<rparr>,
                        replyv := Some 0\<rparr>" "test_conn []" 0]
        sendResponse_body_and_error
          [of "[]" test_deps "test_server True"
              "test_ctx\<lparr>req := \<lparr>req_ServiceMethod = ''/arith/mul'', req_Seq = 10\<rparr>,
                        replyv := Some 56\<rparr>" "test_conn []" 56]
  by (simp add: test_deps_def test_conn_def test_ctx_def contextPool_New_def)

text \<open>
  Claim C5: when \<open>readRequest\<close> returns \<open>keepReading\<close>, \<open>notSend\<close> and an error, the pass of
  \<open>ServeConn\<close> calls neither \<open>sendResponse\<close> nor \<open>writeResponse\<close>: the connection stays as
  \<open>readRequest\<close> left it, the Context goes back to the pool, the wait-group counter is back
  at its value, and the loop goes on with the next header.
\<close>

theorem ServeConn_suppressed_response:
  fixes server1 :: "('pl, 'v) Server" and ctx1 :: "('pl, 'v) Context" and e :: err
  defines "server2 \<equiv>
             callGroup_Done (putContext
               (if e \<noteq> EOF then logf (DebugRpc (err_Error e)) (callGroup_Add 1 server1)
                else callGroup_Add 1 server1) ctx1)"
  assumes "running server"
    and "getContext server cref = (ctx, server1)"
    and "readRequest d ctx conn = Returned ((True, True, Some e), ctx1, conn1)"
  shows "ServeConn_pass d server cref conn = Returned (server2, conn1, None, Continue)
         \<and> ServeConn_loop (Suc n) d server cref conn = ServeConn_loop n d server2 cref conn1
         \<and> callGroup server2 = callGroup server
         \<and> contextPool server2 = hd (contextPool (putContext server1 ctx1)) # contextPool server1"
  using assms
  by (auto simp: ServeConn_pass_def Let_def callGroup_Done_def callGroup_Add_def putContext_def
                 logf_def getContext_def split: list.splits)

theorem ServeConn_suppressed_response_witness:
  "running (test_server True)
   \<and> getContext (test_server True) 0 = (test_ctx, test_server True)
   \<and> readRequest test_deps test_ctx (test_conn [(''/veto'', 8), (''/arith/mul'', 9)]) =
       Returned ((True, True, Some (Err ''vetoed'')),
                 test_ctx\<lparr>req := \<lparr>req_ServiceMethod = ''/veto'', req_Seq = 8\<rparr>\<rparr>,
                 (test_conn [(''/arith/mul'', 9)])\<lparr>tc_bodyReads := [None]\<rparr>)
   \<and> ServeConn_pass test_deps (test_server True) 0
         (test_conn [(''/veto'', 8), (''/arith/mul'', 9)]) =
       Returned ((test_server True)
                   \<lparr>contextPool := [contextPool_New\<lparr>query := Some []\<rparr>],
                    logged := [DebugRpc ''vetoed'']\<rparr>,
                 (test_conn [(''/arith/mul'', 9)])\<lparr>tc_bodyReads := [None]\<rparr>,
                 None, Continue)
   \<and> ServeConn_loop 3 test_deps (test_server True) 0
         (test_conn [(''/veto'', 8), (''/arith/mul'', 9)]) =
       ServeConn_loop 2 test_deps
         ((test_server True)
            \<lparr>contextPool := [contextPool_New\<lparr>query := Some []\<rparr>],
             logged := [DebugRpc ''vetoed'']\<rparr>) 0
         ((test_conn [(''/arith/mul'', 9)])\<lparr>tc_bodyReads := [None]\<rparr>)"
proof -
  have h1: "running (test_server True)"
    by (simp add: test_server_def init_def)
  have h2: "getContext (test_server True) 0 = (test_ctx, test_server True)"
    by (simp add: getContext_def test_server_def test_ctx_def init_def)
  have h3: "readRequest test_deps test_ctx (test_conn [(''/veto'', 8), (''/arith/mul'', 9)]) =
       Returned ((True, True, Some (Err ''vetoed'')),
                 test_ctx\<lparr>req := \<lparr>req_ServiceMethod = ''/veto'', req_Seq = 8\<rparr>\<rparr>,
                 (test_conn [(''/arith/mul'', 9)])\<lparr>tc_bodyReads := [None]\<rparr>)"
    by (simp add: readRequest_def test_defs)
  have s: "callGroup_Done (putContext
             (if Err ''vetoed'' \<noteq> EOF
              then logf (DebugRpc (err_Error (Err ''vetoed''))) (callGroup_Add 1 (test_server True))
              else callGroup_Add 1 (test_server True))
             (test_ctx\<lparr>req := \<lparr>req_ServiceMethod = ''/veto'', req_Seq = 8\<rparr>\<rparr>)) =
           (test_server True)
             \<lparr>contextPool := [contextPool_New\<lparr>query := Some []\<rparr>],
              logged := [DebugRpc ''vetoed'']\<rparr>"
    by (simp add: callGroup_Done_def callGroup_Add_def putContext_def logf_def test_server_def
                  test_ctx_def init_def contextPool_New_def)
  show ?thesis
    using h1 h2 h3 ServeConn_suppressed_response [OF h1 h2 h3, of 2]
    by (simp only: s numeral_3_eq_3 numeral_2_eq_2)
qed













section \<open>Properties: shutting down\<close>



section \<open>Properties: the context pool\<close>

text \<open>
  What \<open>putContext\<close> puts into the pool: a Context with the headers cleared, the bag and
  the connection nil, no service, the zero Values, \<open>query\<close> an empty map, and the
  \<open>rpcErrorType\<close> that the Context had. \<open>putContext\<close> has no assignment to \<open>rpcErrorType\<close>.
\<close>

lemma putContext_pooled:
  "contextPool (putContext server ctx) =
     contextPool_New\<lparr>query := Some [], rpcErrorType := rpcErrorType ctx\<rparr> # contextPool server"
  by (cases ctx) (simp add: putContext_def contextPool_New_def)

lemma getContext_rpcErrorType:
  "rpcErrorType (fst (getContext (putContext server ctx) conn)) = rpcErrorType ctx"
  by (simp add: getContext_def putContext_pooled)

text \<open>
  Claim C1: every Context that \<open>putContext\<close> returns to the pool has every field at its
  zero value, the \<open>rpcErrorType\<close> set by a failed or panicking call included, so that a
  Context fetched from the pool is clean. The code does not do this for \<open>rpcErrorType\<close>.
  Serving one request for \<open>/arith/boom\<close>, whose invoker panics, leaves in the pool a Context
  tagged \<open>ErrorTypeServerServicePanic\<close>, and the next \<open>getContext\<close> hands it out with that
  tag.
\<close>

theorem pooled_context_keeps_rpcErrorType:
  "ServeRequest test_deps (test_server True) 0 (test_conn [(''/arith/boom'', 7)]) =
     Returned (None,
       (test_server True)
         \<lparr>contextPool :=
            [contextPool_New\<lparr>query := Some [], rpcErrorType := ErrorTypeServerServicePanic\<rparr>],
          logged := [CriticalPanic]\<rparr>,
       \<lparr>tc_headers = [], tc_bodyReads = [Some 0],
        tc_written = [(\<lparr>resp_ServiceMethod = ''/arith/boom'', resp_Seq = 7,
                         resp_Error = ''Service Panic!''\<rparr>, invalidRequest)],
        tc_closed = False, tc_codec = True\<rparr>)
   \<and> rpcErrorType
        (fst (getContext
               ((test_server True)
                  \<lparr>contextPool :=
                     [contextPool_New\<lparr>query := Some [],
                                       rpcErrorType := ErrorTypeServerServicePanic\<rparr>],
                   logged := [CriticalPanic]\<rparr>) 0)) = ErrorTypeServerServicePanic"
  by (simp add: test_defs serve_defs)

section \<open>Properties: registration\<close>

lemmas reg_defs = NamedRegister_def CheckSname_def nameRegexp_MatchString_def nameChar_def
  register_def test_RegDeps_def logf_def Let_def

lemma test_registration_eq:
  "test_registration =
     Inr ((test_server False)
            \<lparr>routers := [''/arith/add'', ''/arith/mul''],
             serviceMap := [''/arith/mul'' \<mapsto> test_service ''/arith/mul'',
                            ''/arith/add'' \<mapsto> test_service ''/arith/add''],
             logged := [InfoRoute ''/arith/mul'', InfoRoute ''/arith/add'']\<rparr>,
          [([''g''], ''/arith/mul'', [''m'', ''b'']),
           ([], ''/arith/mul'', [''m'', ''b'']),
           ([''g''], ''/arith/add'', [''m'', ''b'', ''b'']),
           ([], ''/arith/add'', [''m'', ''b'', ''b''])])"
  by (simp add: test_registration_def reg_defs test_server_def init_def test_service_def)

text \<open>One pass of the loop of \<open>register\<close>.\<close>

lemma register_services_Cons:
  "\<exists>errs3 w2.
     register_services d rcvr p (svc # svcs) (errs, md, server, w) =
       register_services d rcvr p svcs
         (errs3, md @ [baseMetadata server],
          server\<lparr>routers := routers server @ [GetPath svc],
                 logged := logged server @ [InfoRoute (GetPath svc)],
                 serviceMap := (serviceMap server)
                   (GetPath svc \<mapsto> svc\<lparr>svc_PluginContainer := Some p\<rparr>)\<rparr>, w2)
     \<and> (errs3 = [] \<longrightarrow> errs = [] \<and> serviceMap server (GetPath svc) = None)"
proof -
  obtain e1 w1 where h1: "doRegister d (PluginContainer server) (GetPath svc) rcvr
                            (md @ [baseMetadata server]) w = (e1, w1)"
    by (cases "doRegister d (PluginContainer server) (GetPath svc) rcvr
                 (md @ [baseMetadata server]) w")
  obtain e2 w2 where h2: "doRegister d p (GetPath svc) rcvr (md @ [baseMetadata server]) w1 =
                            (e2, w2)"
    by (cases "doRegister d p (GetPath svc) rcvr (md @ [baseMetadata server]) w1")
  define errs1 where "errs1 = (if serviceMap server (GetPath svc) \<noteq> None
                               then errs @ [ErrServiceAlreadyExists (GetPath svc)] else errs)"
  define errs2 where "errs2 = (case e1 of Some e \<Rightarrow> errs1 @ [NewError (err_Error e)]
                               | None \<Rightarrow> errs1)"
  define errs3 where "errs3 = (case e2 of Some e \<Rightarrow> errs2 @ [NewError (err_Error e)]
                               | None \<Rightarrow> errs2)"
  have step: "register_services d rcvr p (svc # svcs) (errs, md, server, w) =
       register_services d rcvr p svcs
         (errs3, md @ [baseMetadata server],
          server\<lparr>routers := routers server @ [GetPath svc],
                 logged := logged server @ [InfoRoute (GetPath svc)],
                 serviceMap := (serviceMap server)
                   (GetPath svc \<mapsto> svc\<lparr>svc_PluginContainer := Some p\<rparr>)\<rparr>, w2)"
    unfolding errs3_def errs2_def errs1_def using h1 h2 by (auto simp: Let_def logf_def)
  have "errs3 = [] \<longrightarrow> errs = [] \<and> serviceMap server (GetPath svc) = None"
    by (auto simp: errs3_def errs2_def errs1_def split: option.splits if_splits)
  with step show ?thesis by blast
qed

lemma register_services_errs:
  "register_services d rcvr p svcs (errs, md, server, w) = (errs', md', server', w') \<Longrightarrow>
   errs' = [] \<Longrightarrow> errs = []"
proof (induction svcs arbitrary: errs md server w)
  case Nil
  then show ?case by simp
next
  case (Cons svc svcs)
  obtain errs3 w2 where
    step: "register_services d rcvr p (svc # svcs) (errs, md, server, w) =
       register_services d rcvr p svcs
         (errs3, md @ [baseMetadata server],
          server\<lparr>routers := routers server @ [GetPath svc],
                 logged := logged server @ [InfoRoute (GetPath svc)],
                 serviceMap := (serviceMap server)
                   (GetPath svc \<mapsto> svc\<lparr>svc_PluginContainer := Some p\<rparr>)\<rparr>, w2)"
    and e: "errs3 = [] \<longrightarrow> errs = [] \<and> serviceMap server (GetPath svc) = None"
    using register_services_Cons [of d rcvr p svc svcs errs md server w] by blast
  from Cons.prems(1) step Cons.IH Cons.prems(2) have "errs3 = []" by metis
  with e show ?case by simp
qed

lemma register_services_registry:
  "register_services d rcvr p svcs (errs, md, server, w) = (errs', md', server', w') \<Longrightarrow>
   errs' = [] \<Longrightarrow>
   distinct (routers server) \<and> set (routers server) = dom (serviceMap server) \<Longrightarrow>
   distinct (routers server') \<and> set (routers server') = dom (serviceMap server')"
proof (induction svcs arbitrary: errs md server w)
  case Nil
  then show ?case by simp
next
  case (Cons svc svcs)
  obtain errs3 w2 where
    step: "register_services d rcvr p (svc # svcs) (errs, md, server, w) =
       register_services d rcvr p svcs
         (errs3, md @ [baseMetadata server],
          server\<lparr>routers := routers server @ [GetPath svc],
                 logged := logged server @ [InfoRoute (GetPath svc)],
                 serviceMap := (serviceMap server)
                   (GetPath svc \<mapsto> svc\<lparr>svc_PluginContainer := Some p\<rparr>)\<rparr>, w2)"
      (is "_ = register_services d rcvr p svcs (errs3, ?M, ?S, w2)")
    and e: "errs3 = [] \<longrightarrow> errs = [] \<and> serviceMap server (GetPath svc) = None"
    using register_services_Cons [of d rcvr p svc svcs errs md server w] by blast
  from Cons.prems(1) step
  have rest: "register_services d rcvr p svcs (errs3, ?M, ?S, w2) =
                (errs', md', server', w')"
    by simp
  from register_services_errs [OF rest Cons.prems(2)] e
  have fresh: "serviceMap server (GetPath svc) = None" by simp
  then have "GetPath svc \<notin> set (routers server)"
    using Cons.prems(3) by auto
  then have "distinct (routers ?S) \<and> set (routers ?S) = dom (serviceMap ?S)"
    using Cons.prems(3) by auto
  from Cons.IH [OF rest Cons.prems(2) this] show ?case .
qed

lemma register_services_present:
  "register_services d rcvr p svcs (errs, md, server, w) = (errs', md', server', w') \<Longrightarrow>
   \<exists>svc \<in> set svcs. serviceMap server (GetPath svc) \<noteq> None \<Longrightarrow> errs' \<noteq> []"
proof (induction svcs arbitrary: errs md server w)
  case Nil
  then show ?case by simp
next
  case (Cons svc svcs)
  obtain errs3 w2 where
    step: "register_services d rcvr p (svc # svcs) (errs, md, server, w) =
       register_services d rcvr p svcs
         (errs3, md @ [baseMetadata server],
          server\<lparr>routers := routers server @ [GetPath svc],
                 logged := logged server @ [InfoRoute (GetPath svc)],
                 serviceMap := (serviceMap server)
                   (GetPath svc \<mapsto> svc\<lparr>svc_PluginContainer := Some p\<rparr>)\<rparr>, w2)"
      (is "_ = register_services d rcvr p svcs (errs3, ?M, ?S, w2)")
    and e: "errs3 = [] \<longrightarrow> errs = [] \<and> serviceMap server (GetPath svc) = None"
    using register_services_Cons [of d rcvr p svc svcs errs md server w] by blast
  from Cons.prems(1) step
  have rest: "register_services d rcvr p svcs (errs3, ?M, ?S, w2) =
                (errs', md', server', w')"
    by simp
  show ?case
  proof (cases "serviceMap server (GetPath svc) = None")
    case False
    with e have "errs3 \<noteq> []" by blast
    with register_services_errs [OF rest] show ?thesis by blast
  next
    case True
    with Cons.prems(2) obtain s where "s \<in> set svcs" "serviceMap server (GetPath s) \<noteq> None"
      by auto
    then have "\<exists>svc \<in> set svcs. serviceMap ?S (GetPath svc) \<noteq> None"
      by auto
    from Cons.IH [OF rest this] show ?thesis .
  qed
qed

text \<open>
  The metadata after the loop: the base metadata has been appended once for every
  service, and the hooks of the k-th service have seen k copies of it.
\<close>

lemma register_services_metadata:
  "register_services d rcvr p svcs (errs, md, server, w) = (errs', md', server', w') \<Longrightarrow>
   md' = md @ replicate (length svcs) (baseMetadata server)
   \<and> baseMetadata server' = baseMetadata server"
proof (induction svcs arbitrary: errs md server w)
  case Nil
  then show ?case by simp
next
  case (Cons svc svcs)
  obtain errs3 w2 where
    step: "register_services d rcvr p (svc # svcs) (errs, md, server, w) =
       register_services d rcvr p svcs
         (errs3, md @ [baseMetadata server],
          server\<lparr>routers := routers server @ [GetPath svc],
                 logged := logged server @ [InfoRoute (GetPath svc)],
                 serviceMap := (serviceMap server)
                   (GetPath svc \<mapsto> svc\<lparr>svc_PluginContainer := Some p\<rparr>)\<rparr>, w2)"
      (is "_ = register_services d rcvr p svcs (errs3, ?M, ?S, w2)")
    using register_services_Cons [of d rcvr p svc svcs errs md server w] by blast
  from Cons.prems(1) step
  have rest: "register_services d rcvr p svcs (errs3, ?M, ?S, w2) =
                (errs', md', server', w')"
    by simp
  from Cons.IH [OF rest] show ?case
    by (simp add: replicate_append_same)
qed

text \<open>
  Claim C9: for each service path \<open>register\<close> calls the register hook of the server-wide
  container first and of the scoped container second, and every invocation gets the
  caller's metadata with the base metadata appended exactly once, however many services
  the receiver has. The order holds. The metadata does not: \<open>metadata = append(metadata,
  server.baseMetadata)\<close> stands inside the loop, so the hooks of the second service get the
  base metadata twice. Here \<open>Arith\<close> has two services, the caller's metadata is \<open>m\<close> and the
  base metadata is \<open>b\<close>; the recorded invocations are, in order, the container, the path
  and the metadata of each.
\<close>

theorem register_appends_baseMetadata_per_service:
  "map_sum id snd test_registration =
     Inr [([''g''], ''/arith/mul'', [''m'', ''b'']),
          ([], ''/arith/mul'', [''m'', ''b'']),
          ([''g''], ''/arith/add'', [''m'', ''b'', ''b'']),
          ([], ''/arith/add'', [''m'', ''b'', ''b''])]"
  by (simp add: test_registration_eq)

text \<open>
  Claim C7, as stated: after every registration that returns, every registered path is
  unique in the registry and matches \<^verbatim>\<open>[A-Za-z0-9._\-/]*\<close>, the routers are sorted, and
  registering a path that is present is fatal. \<open>CheckSname\<close> checks the name given to
  \<open>NamedRegister\<close> (or taken from \<open>ObjectName\<close>); the path comes from the service builder
  and \<open>register\<close> checks no character of it. With a builder whose path holds a
  percent-escaped byte the registration returns and the path is in the routers.
\<close>

theorem registered_path_charset_counterexample:
  "map_sum id (routers \<circ> fst) test_escaped_registration = Inr [''/arith/caf%C3%A9'']
   \<and> \<not> list_all pathChar ''/arith/caf%C3%A9''"
  by (simp add: test_escaped_registration_def reg_defs test_server_def init_def test_service_def
                pathChar_def)

text \<open>
  Claim C7, amended: on a registry whose routers list each key of the service map once,
  every registration that returns (\<open>register\<close> itself, \<open>NamedRegister\<close> and \<open>Register\<close> of
  the server and of a group) leaves such a registry, with the routers sorted: the paths
  are unique and in order. The name given to \<open>NamedRegister\<close>, or taken from \<open>ObjectName\<close>
  by \<open>Register\<close>, has only characters of \<^verbatim>\<open>[A-Za-z0-9_.-]\<close>. When the builder returns a
  service whose path is present in the registry, \<open>register\<close> is fatal.
\<close>

theorem registration_keeps_registry:
  assumes "registry_ok server"
  shows "(register d pathSegments rcvr p metadata (server, w) = Inr (server', w') \<longrightarrow>
            registry_ok server' \<and> sorted (routers server'))
         \<and> (NamedRegister d name rcvr metadata (server, w) = Inr (server', w') \<longrightarrow>
            registry_ok server' \<and> sorted (routers server') \<and> list_all nameChar name)
         \<and> (Register d rcvr metadata (server, w) = Inr (server', w') \<longrightarrow>
            registry_ok server' \<and> sorted (routers server')
            \<and> list_all nameChar (ObjectName d rcvr))
         \<and> (group_NamedRegister d grp name rcvr metadata (server, w) = Inr (server', w') \<longrightarrow>
            registry_ok server' \<and> sorted (routers server') \<and> list_all nameChar name)
         \<and> (group_Register d grp rcvr metadata (server, w) = Inr (server', w') \<longrightarrow>
            registry_ok server' \<and> sorted (routers server')
            \<and> list_all nameChar (ObjectName d rcvr))
         \<and> (NewServices d rcvr pathSegments = Inr services \<longrightarrow>
            (\<exists>svc \<in> set services. serviceMap server (GetPath svc) \<noteq> None) \<longrightarrow>
            isl (register d pathSegments rcvr p metadata (server, w)))"
proof -
  have reg: "registry_ok s' \<and> sorted (routers s')"
    if "register d segs rcvr q metadata (server, w) = Inr (s', w')" for segs q s'
  proof -
    from that obtain services where n: "NewServices d rcvr segs = Inr services"
      by (auto simp: register_def split: sum.splits)
    obtain errs md s1 w1 where
      l: "register_services d rcvr q services ([], metadata, server, w) = (errs, md, s1, w1)"
      by (cases "register_services d rcvr q services ([], metadata, server, w)")
    from that n l have e: "errs = []" and s': "s' = s1\<lparr>routers := sort (routers s1)\<rparr>"
      by (auto simp: register_def split: if_splits)
    from assms have "distinct (routers server) \<and> set (routers server) = dom (serviceMap server)"
      by (simp add: registry_ok_def)
    from register_services_registry [OF l e this] s' show ?thesis
      by (simp add: registry_ok_def)
  qed
  have named: "registry_ok s' \<and> sorted (routers s') \<and> list_all nameChar nm"
    if "NamedRegister d nm rcvr metadata (server, w) = Inr (s', w')" for nm s'
    using that reg [of "[nm]" "[]" s']
    by (auto simp: NamedRegister_def CheckSname_def nameRegexp_MatchString_def
             split: option.splits if_splits)
  have grp: "registry_ok s' \<and> sorted (routers s') \<and> list_all nameChar nm"
    if "group_NamedRegister d grp nm rcvr metadata (server, w) = Inr (s', w')" for nm s'
    using that reg [of "prefixes grp @ [nm]" _ s']
    by (auto simp: group_NamedRegister_def CheckSname_def nameRegexp_MatchString_def Let_def
             split: option.splits if_splits)
  have fatal: "isl (register d pathSegments rcvr p metadata (server, w))"
    if n: "NewServices d rcvr pathSegments = Inr services"
      and ex: "\<exists>svc \<in> set services. serviceMap server (GetPath svc) \<noteq> None"
  proof -
    obtain errs md s1 w1 where
      l: "register_services d rcvr p services ([], metadata, server, w) = (errs, md, s1, w1)"
      by (cases "register_services d rcvr p services ([], metadata, server, w)")
    from register_services_present [OF l ex] have "errs \<noteq> []" .
    with n l show ?thesis
      by (simp add: register_def)
  qed
  show ?thesis
    using reg [of pathSegments p server'] named [of name server']
      named [of "ObjectName d rcvr" server'] grp [of name server']
      grp [of "ObjectName d rcvr" server'] fatal
    by (simp add: Register_def group_Register_def)
qed

lemma registry_ok_init: "registry_ok (init server)"
  by (simp add: registry_ok_def init_def)

lemma Inr_projr: "\<not> isl x \<Longrightarrow> x = Inr (fst (projr x), snd (projr x))"
  by (cases x) simp_all

theorem registration_keeps_registry_witness:
  "registry_ok (test_server False)
   \<and> \<not> isl test_registration
   \<and> registry_ok (fst (projr test_registration))
   \<and> routers (fst (projr test_registration)) = [''/arith/add'', ''/arith/mul'']
   \<and> list_all nameChar ''Arith''
   \<and> sorted (routers (fst (projr test_registration)))
   \<and> \<not> isl test_register
   \<and> registry_ok (fst (projr test_register))
   \<and> \<not> isl test_Register
   \<and> registry_ok (fst (projr test_Register))
   \<and> \<not> isl test_group_NamedRegister
   \<and> registry_ok (fst (projr test_group_NamedRegister))
   \<and> \<not> isl test_group_Register
   \<and> registry_ok (fst (projr test_group_Register))
   \<and> NewServices (test_RegDeps [''/arith/div'', ''/arith/mul'']) () [''Arith2''] =
       Inr [test_service ''/arith/div'', test_service ''/arith/mul'']
   \<and> serviceMap (fst (projr test_registration)) (GetPath (test_service ''/arith/mul'')) \<noteq> None
   \<and> isl (register (test_RegDeps [''/arith/div'', ''/arith/mul'']) [''Arith2''] () [] []
             (projr test_registration))"
proof -
  have h0: "registry_ok (test_server False)"
    by (simp add: test_server_def registry_ok_init)
  have i1: "\<not> isl test_registration"
    by (simp add: test_registration_eq)
  have i0: "\<not> isl test_register"
    by (simp add: test_register_def reg_defs test_server_def init_def test_service_def)
  have i2: "\<not> isl test_Register"
    by (simp add: test_Register_def Register_def reg_defs test_server_def init_def
                  test_service_def)
  have i3: "\<not> isl test_group_NamedRegister"
    by (simp add: test_group_NamedRegister_def group_NamedRegister_def reg_defs test_group_def
                  test_server_def init_def test_service_def)
  have i4: "\<not> isl test_group_Register"
    by (simp add: test_group_Register_def group_Register_def group_NamedRegister_def reg_defs
                  test_group_def test_server_def init_def test_service_def)
  note e0 = Inr_projr [OF i0, unfolded test_register_def]
  note e1 = Inr_projr [OF i1, unfolded test_registration_def]
  note e2 = Inr_projr [OF i2, unfolded test_Register_def]
  note e3 = Inr_projr [OF i3, unfolded test_group_NamedRegister_def]
  note e4 = Inr_projr [OF i4, unfolded test_group_Register_def]
  note r0 = registration_keeps_registry
    [OF h0, THEN conjunct1, THEN mp, OF e0, folded test_register_def]
  note r1 = registration_keeps_registry
    [OF h0, THEN conjunct2, THEN conjunct1, THEN mp, OF e1, folded test_registration_def]
  note r2 = registration_keeps_registry
    [OF h0, THEN conjunct2, THEN conjunct2, THEN conjunct1, THEN mp, OF e2,
     folded test_Register_def]
  note r3 = registration_keeps_registry
    [OF h0, THEN conjunct2, THEN conjunct2, THEN conjunct2, THEN conjunct1, THEN mp, OF e3,
     folded test_group_NamedRegister_def]
  note r4 = registration_keeps_registry
    [OF h0, THEN conjunct2, THEN conjunct2, THEN conjunct2, THEN conjunct2, THEN conjunct1,
     THEN mp, OF e4, folded test_group_Register_def]
  have s: "NewServices (test_RegDeps [''/arith/div'', ''/arith/mul'']) () [''Arith2''] =
       Inr [test_service ''/arith/div'', test_service ''/arith/mul'']"
    by (simp add: test_RegDeps_def)
  have m: "serviceMap (fst (projr test_registration)) (GetPath (test_service ''/arith/mul'')) \<noteq> None"
    by (simp add: test_registration_eq test_service_def)
  have ex: "\<exists>svc \<in> set [test_service ''/arith/div'', test_service ''/arith/mul''].
              serviceMap (fst (projr test_registration)) (GetPath svc) \<noteq> None"
    using m by simp
  note f = registration_keeps_registry
    [OF conjunct1 [OF r1], THEN conjunct2, THEN conjunct2, THEN conjunct2, THEN conjunct2,
     THEN conjunct2, THEN mp, OF s, THEN mp, OF ex, of "[]" "[]" "snd (projr test_registration)"]
  have rt: "routers (fst (projr test_registration)) = [''/arith/add'', ''/arith/mul'']"
    by (simp add: test_registration_eq)
  show ?thesis
    using h0 i0 r0 i1 r1 rt i2 r2 i3 r3 i4 r4 s m f by simp
qed

end
